theory Spec2Isabelle
  imports Complex_Main "HOL-Library.Word"
begin

section \<open>JavaScript values used by the client\<close>

text \<open>
  A JavaScript string is a sequence of UTF-16 code units. String literals of the source
  are ASCII and are written through \<open>js\<close>.
\<close>

type_synonym js_string = "16 word list"

definition js :: "string \<Rightarrow> js_string" where
  "js s = map of_char s"

text \<open>
  A JavaScript Number, an IEEE 754 double: \<open>NaN\<close>, the two infinities, the negative zero,
  and \<open>Num x\<close> for the finite double whose value is \<open>x\<close>, with \<open>Num 0\<close> the positive zero.
\<close>

datatype js_number = NaN | PosInfinity | NegInfinity | NegZero | Num real

text \<open>
  The code units that \<^verbatim>\<open>String.prototype.trim\<close> and \<^verbatim>\<open>parseInt\<close> strip
  (ECMAScript WhiteSpace and LineTerminator): TAB, LF, VT, FF, CR, SP, NBSP, U+1680,
  U+2000..U+200A, U+2028, U+2029, U+202F, U+205F, U+3000 and U+FEFF.
\<close>

definition isWhiteSpace :: "16 word \<Rightarrow> bool" where
  "isWhiteSpace c \<longleftrightarrow>
     c = 0x0009 \<or> c = 0x000A \<or> c = 0x000B \<or> c = 0x000C \<or> c = 0x000D \<or> c = 0x0020 \<or>
     c = 0x00A0 \<or> c = 0x1680 \<or> (0x2000 \<le> c \<and> c \<le> 0x200A) \<or> c = 0x2028 \<or> c = 0x2029 \<or>
     c = 0x202F \<or> c = 0x205F \<or> c = 0x3000 \<or> c = 0xFEFF"

text \<open>\<^verbatim>\<open>s.trim()\<close>: white space removed from both ends.\<close>

definition trim :: "js_string \<Rightarrow> js_string" where
  "trim s = rev (dropWhile isWhiteSpace (rev (dropWhile isWhiteSpace s)))"

section \<open>Types of the client (types/common.ts, types/organizations.ts)\<close>

record IikoClientOptions =
  baseUrl :: "js_string option"
  timeout :: "js_number option"

record AuthResponse =
  token :: js_string

text \<open>
  \<^verbatim>\<open>ApiErrorResponse\<close>: the fields are \<open>api_\<close>-prefixed, the names \<open>errorCode\<close> and
  \<open>message\<close> being those of the error classes below. \<open>details\<close> is \<^verbatim>\<open>unknown\<close> in the source.
\<close>

record ApiErrorResponse =
  api_errorCode :: "js_string option"
  api_message :: "js_string option"
  api_details :: "js_string option"

record GetOrganizationsRequest =
  organizationIds :: "js_string list option"
  returnAdditionalInfo :: "bool option"
  includeDisabled :: "bool option"

record Organization =
  org_id :: js_string
  org_name :: js_string
  country :: "js_string option"
  restaurantAddress :: "js_string option"
  latitude :: "js_number option"
  longitude :: "js_number option"
  useUTCOffset :: "bool option"
  utcOffset :: "js_number option"
  currencyIsoName :: "js_string option"
  currencyMinimumDenomination :: "js_number option"
  isDisabled :: "bool option"

record GetOrganizationsResponse =
  correlationId :: js_string
  organizations :: "Organization list"

section \<open>Error classes (errors.ts)\<close>

datatype error_class = IikoApiError | IikoAuthError | IikoRateLimitError

text \<open>
  An instance of \<^verbatim>\<open>IikoApiError\<close> or of one of its two subclasses; \<open>name\<close> is the class.
  \<open>retryAfter\<close> exists on \<^verbatim>\<open>IikoRateLimitError\<close> only and reads \<^verbatim>\<open>undefined\<close> elsewhere.
\<close>

record iiko_error =
  name :: error_class
  message :: js_string
  statusCode :: int
  errorCode :: "js_string option"
  response :: "ApiErrorResponse option"
  retryAfter :: "js_number option"

definition new_IikoApiError ::
  "js_string \<Rightarrow> int \<Rightarrow> js_string option \<Rightarrow> ApiErrorResponse option \<Rightarrow> iiko_error" where
  "new_IikoApiError msg code ecode resp =
     \<lparr>name = IikoApiError, message = msg, statusCode = code, errorCode = ecode,
      response = resp, retryAfter = None\<rparr>"

definition new_IikoAuthError :: "js_string \<Rightarrow> ApiErrorResponse option \<Rightarrow> iiko_error" where
  "new_IikoAuthError msg resp =
     (new_IikoApiError msg 401 (Some (js ''AUTH_ERROR'')) resp)\<lparr>name := IikoAuthError\<rparr>"

definition new_IikoRateLimitError ::
  "js_string \<Rightarrow> js_number option \<Rightarrow> ApiErrorResponse option \<Rightarrow> iiko_error" where
  "new_IikoRateLimitError msg ra resp =
     (new_IikoApiError msg 429 (Some (js ''RATE_LIMIT'')) resp)
       \<lparr>name := IikoRateLimitError, retryAfter := ra\<rparr>"

section \<open>The transport (axios)\<close>

datatype http_method = GET | POST

text \<open>The configuration of the axios instance made by the constructor.\<close>

record AxiosInstance =
  baseURL :: js_string
  instance_timeout :: js_number
  instance_headers :: "js_string \<rightharpoonup> js_string"

text \<open>
  A request as it is handed to the transport: the instance's configuration, the method,
  the path, the body and the headers of this call.
\<close>

record 'b http_request =
  req_instance :: AxiosInstance
  req_method :: http_method
  req_url :: js_string
  req_data :: "'b option"
  req_headers :: "js_string \<rightharpoonup> js_string"

record 'a AxiosResponse =
  data :: 'a
  status :: int
  headers :: "js_string \<rightharpoonup> js_string"

text \<open>
  \<^verbatim>\<open>AxiosError<ApiErrorResponse>\<close>: \<open>ax_response\<close> is absent when the transport got no
  response; the source reads both \<open>response.data\<close> and \<open>message\<close> through \<^verbatim>\<open>?.\<close> and
  \<^verbatim>\<open>??\<close>, so each may be absent.
\<close>

record AxiosError =
  ax_response :: "ApiErrorResponse option AxiosResponse option"
  ax_message :: "js_string option"

text \<open>
  The network is a parameter of every call that dispatches: it maps the request either
  to a rejection (\<open>Inl\<close>) or to a response (\<open>Inr\<close>).
\<close>

type_synonym ('b, 'a) network = "'b http_request \<Rightarrow> AxiosError + 'a AxiosResponse"

section \<open>The client (client.ts)\<close>

definition DEFAULT_BASE_URL :: js_string where
  "DEFAULT_BASE_URL = js ''https://api-ru.iiko.services''"

definition DEFAULT_TIMEOUT :: js_number where
  "DEFAULT_TIMEOUT = Num 30000"

record IikoClient =
  apiKey :: js_string
  httpClient :: AxiosInstance
  accessToken :: "js_string option"

text \<open>The plain \<^verbatim>\<open>Error\<close> thrown by the constructor, with its message.\<close>

datatype js_Error = Error js_string

text \<open>
  The constructor. \<^verbatim>\<open>!apiKey\<close> holds of the empty string only; the second argument is
  \<open>None\<close> when omitted and then defaults to \<^verbatim>\<open>{}\<close>.
\<close>

definition new_IikoClient :: "js_string \<Rightarrow> IikoClientOptions option \<Rightarrow> js_Error + IikoClient" where
  "new_IikoClient key opts =
     (let options = (case opts of None \<Rightarrow> \<lparr>baseUrl = None, timeout = None\<rparr> | Some o' \<Rightarrow> o')
      in if key = [] \<or> trim key = [] then Inl (Error (js ''API key is required''))
         else Inr \<lparr>apiKey = key,
                   httpClient =
                     \<lparr>baseURL = (case baseUrl options of None \<Rightarrow> DEFAULT_BASE_URL | Some u \<Rightarrow> u),
                      instance_timeout = (case timeout options of None \<Rightarrow> DEFAULT_TIMEOUT | Some t \<Rightarrow> t),
                      instance_headers = [js ''Content-Type'' \<mapsto> js ''application/json'']\<rparr>,
                   accessToken = None\<rparr>)"

definition isAuthenticated :: "IikoClient \<Rightarrow> bool" where
  "isAuthenticated c \<longleftrightarrow> accessToken c \<noteq> None"

definition getAccessToken :: "IikoClient \<Rightarrow> js_string option" where
  "getAccessToken c = accessToken c"

text \<open>
  \<^verbatim>\<open>parseInt(string, 10)\<close> after ECMAScript: leading white space is skipped, one sign is
  read, then the longest run of decimal digits, and what follows the digits is ignored.
  With no digit the result is \<open>NaN\<close>. Otherwise it is the double nearest to the integer
  read, ties to the even significand: \<open>roundToDouble\<close> rounds a natural number to 53
  significant bits and is \<open>None\<close> when the rounded value reaches \<open>2 ^ 1024\<close>, where the
  double is an infinity. A zero keeps its sign. All digits are read (ECMAScript lets an
  implementation read the digits after the twentieth significant one as zeros).
\<close>

definition isDecimalDigit :: "16 word \<Rightarrow> bool" where
  "isDecimalDigit c \<longleftrightarrow> 0x0030 \<le> c \<and> c \<le> 0x0039"

definition digitsValue :: "js_string \<Rightarrow> nat" where
  "digitsValue Z = foldl (\<lambda>n c. 10 * n + unat (c - 0x0030)) 0 Z"

fun bitLength :: "nat \<Rightarrow> nat" where
  "bitLength n = (if n = 0 then 0 else Suc (bitLength (n div 2)))"

definition roundToDouble :: "nat \<Rightarrow> nat option" where
  "roundToDouble n =
     (if n < 2 ^ 53 then Some n
      else
        (let e = bitLength n - 53;
             q = n div 2 ^ e;
             r = n mod 2 ^ e;
             q' = (if 2 ^ e < 2 * r \<or> (2 * r = 2 ^ e \<and> odd q) then q + 1 else q)
         in if 2 ^ 1024 \<le> q' * 2 ^ e then None else Some (q' * 2 ^ e)))"

definition parseInt10 :: "js_string \<Rightarrow> js_number" where
  "parseInt10 string =
     (let S = dropWhile isWhiteSpace string;
          negative = (S \<noteq> [] \<and> hd S = 0x002D);
          S' = (if S \<noteq> [] \<and> (hd S = 0x002B \<or> hd S = 0x002D) then tl S else S);
          Z = takeWhile isDecimalDigit S'
      in if Z = [] then NaN
         else if digitsValue Z = 0 then (if negative then NegZero else Num 0)
         else (case roundToDouble (digitsValue Z) of
                 None \<Rightarrow> (if negative then NegInfinity else PosInfinity)
               | Some v \<Rightarrow> Num (if negative then - real v else real v)))"

text \<open>
  \<open>handleError\<close>, the rejection handler of the response interceptor. It always throws;
  the model returns the error it throws.
\<close>

definition handleError :: "AxiosError \<Rightarrow> iiko_error" where
  "handleError error =
     (let st = (case ax_response error of None \<Rightarrow> 500 | Some r \<Rightarrow> status r);
          body = (case ax_response error of None \<Rightarrow> None | Some r \<Rightarrow> data r);
          msg = (case (case body of None \<Rightarrow> None | Some d \<Rightarrow> api_message d) of
                   Some m \<Rightarrow> m
                 | None \<Rightarrow> (case ax_message error of
                              Some m \<Rightarrow> m
                            | None \<Rightarrow> js ''An unknown error occurred''))
      in if st = 401 then new_IikoAuthError msg body
         else if st = 429 then
           (let ra = (case ax_response error of None \<Rightarrow> None
                      | Some r \<Rightarrow> headers r (js ''retry-after''))
            in new_IikoRateLimitError msg
                 (case ra of None \<Rightarrow> None
                  | Some h \<Rightarrow> if h = [] then None else Some (parseInt10 h))
                 body)
         else new_IikoApiError msg st
                (case body of None \<Rightarrow> None | Some d \<Rightarrow> api_errorCode d) body)"

text \<open>
  A request through the axios instance: the transport is asked, the fulfilment handler
  of the interceptor returns the response as it is, the rejection handler is
  \<open>handleError\<close>.
\<close>

definition httpClient_request ::
  "('b, 'a) network \<Rightarrow> 'b http_request \<Rightarrow> iiko_error + 'a AxiosResponse" where
  "httpClient_request net req =
     (case net req of Inl e \<Rightarrow> Inl (handleError e) | Inr r \<Rightarrow> Inr r)"

text \<open>
  What an asynchronous method leaves behind: the value it resolves to or the error it
  rejects with, the client after the call, and the requests it handed to the transport.
\<close>

record ('a, 'b) outcome =
  result :: "iiko_error + 'a"
  client :: IikoClient
  sent :: "'b http_request list"

record AccessTokenRequest =
  apiLogin :: js_string

definition access_token_request :: "IikoClient \<Rightarrow> AccessTokenRequest http_request" where
  "access_token_request c =
     \<lparr>req_instance = httpClient c, req_method = POST,
      req_url = js ''/api/1/access_token'',
      req_data = Some \<lparr>apiLogin = apiKey c\<rparr>,
      req_headers = instance_headers (httpClient c)\<rparr>"

definition authenticate ::
  "(AccessTokenRequest, js_string) network \<Rightarrow> IikoClient
     \<Rightarrow> (AuthResponse, AccessTokenRequest) outcome" where
  "authenticate net c =
     (case httpClient_request net (access_token_request c) of
        Inl e \<Rightarrow> \<lparr>result = Inl e, client = c, sent = [access_token_request c]\<rparr>
      | Inr r \<Rightarrow>
          \<lparr>result = Inr \<lparr>token = data r\<rparr>,
           client = c\<lparr>accessToken := Some (data r)\<rparr>,
           sent = [access_token_request c]\<rparr>)"

text \<open>\<^verbatim>\<open>!this.accessToken\<close> holds of \<^verbatim>\<open>null\<close> and of the empty string.\<close>

definition ensureAuthenticated :: "IikoClient \<Rightarrow> iiko_error + unit" where
  "ensureAuthenticated c =
     (if accessToken c = None \<or> accessToken c = Some []
      then Inl (new_IikoAuthError (js ''Not authenticated. Call authenticate() first.'') None)
      else Inr ())"

definition getAuthHeaders :: "IikoClient \<Rightarrow> js_string \<rightharpoonup> js_string" where
  "getAuthHeaders c =
     [js ''Authorization'' \<mapsto>
        js ''Bearer '' @ (case accessToken c of None \<Rightarrow> js ''null'' | Some t \<Rightarrow> t)]"

definition authenticated_request ::
  "IikoClient \<Rightarrow> http_method \<Rightarrow> js_string \<Rightarrow> 'b option \<Rightarrow> 'b http_request" where
  "authenticated_request c m endpoint d =
     \<lparr>req_instance = httpClient c, req_method = m, req_url = endpoint, req_data = d,
      req_headers = instance_headers (httpClient c) ++ getAuthHeaders c\<rparr>"

definition get :: "(unit, 'a) network \<Rightarrow> IikoClient \<Rightarrow> js_string \<Rightarrow> ('a, unit) outcome" where
  "get net c endpoint =
     (case ensureAuthenticated c of
        Inl e \<Rightarrow> \<lparr>result = Inl e, client = c, sent = []\<rparr>
      | Inr _ \<Rightarrow>
          (let req = authenticated_request c GET endpoint None
           in case httpClient_request net req of
                Inl e \<Rightarrow> \<lparr>result = Inl e, client = c, sent = [req]\<rparr>
              | Inr r \<Rightarrow> \<lparr>result = Inr (data r), client = c, sent = [req]\<rparr>))"

definition post ::
  "('b, 'a) network \<Rightarrow> IikoClient \<Rightarrow> js_string \<Rightarrow> 'b option \<Rightarrow> ('a, 'b) outcome" where
  "post net c endpoint d =
     (case ensureAuthenticated c of
        Inl e \<Rightarrow> \<lparr>result = Inl e, client = c, sent = []\<rparr>
      | Inr _ \<Rightarrow>
          (let req = authenticated_request c POST endpoint d
           in case httpClient_request net req of
                Inl e \<Rightarrow> \<lparr>result = Inl e, client = c, sent = [req]\<rparr>
              | Inr r \<Rightarrow> \<lparr>result = Inr (data r), client = c, sent = [req]\<rparr>))"

text \<open>The argument is \<open>None\<close> when omitted and then defaults to \<^verbatim>\<open>{}\<close>.\<close>

definition getOrganizations ::
  "(GetOrganizationsRequest, GetOrganizationsResponse) network \<Rightarrow> IikoClient
     \<Rightarrow> GetOrganizationsRequest option
     \<Rightarrow> (GetOrganizationsResponse, GetOrganizationsRequest) outcome" where
  "getOrganizations net c request =
     post net c (js ''/api/1/organizations'')
       (Some (case request of
                None \<Rightarrow> \<lparr>organizationIds = None, returnAdditionalInfo = None,
                          includeDisabled = None\<rparr>
              | Some r \<Rightarrow> r))"

text \<open>
  The clients that have never completed a successful \<open>authenticate\<close>: a client as the
  constructor returns it, and every client such a one becomes through an
  \<open>authenticate\<close> that fails or through a resource call.
\<close>

inductive never_authenticated :: "IikoClient \<Rightarrow> bool" where
  constructed: "new_IikoClient key opts = Inr c \<Longrightarrow> never_authenticated c"
| auth_failed:
    "never_authenticated c \<Longrightarrow> result (authenticate net c) = Inl e
       \<Longrightarrow> never_authenticated (client (authenticate net c))"
| resource_call:
    "never_authenticated c \<Longrightarrow> never_authenticated (client (getOrganizations net' c request))"

text \<open>Values of the repository's tests, for the examples below.\<close>

definition TEST_API_KEY :: js_string where
  "TEST_API_KEY = js ''test-api-key-12345''"

definition TEST_TOKEN :: js_string where
  "TEST_TOKEN = js ''test-access-token-67890''"

definition test_client :: IikoClient where
  "test_client =
     \<lparr>apiKey = TEST_API_KEY,
      httpClient = \<lparr>baseURL = DEFAULT_BASE_URL, instance_timeout = DEFAULT_TIMEOUT,
                    instance_headers = [js ''Content-Type'' \<mapsto> js ''application/json'']\<rparr>,
      accessToken = None\<rparr>"

definition token_server :: "js_string \<Rightarrow> (AccessTokenRequest, js_string) network" where
  "token_server t req = Inr \<lparr>data = t, status = 200, headers = Map.empty\<rparr>"

definition failing_server :: "AxiosError \<Rightarrow> ('b, 'a) network" where
  "failing_server e req = Inl e"

definition resp401 :: AxiosError where
  "resp401 =
     \<lparr>ax_response =
        Some \<lparr>data = Some \<lparr>api_errorCode = None, api_message = Some (js ''Invalid API key''),
                           api_details = None\<rparr>,
              status = 401, headers = Map.empty\<rparr>,
      ax_message = Some (js ''Request failed with status code 401'')\<rparr>"

definition resp429 :: "js_string option \<Rightarrow> AxiosError" where
  "resp429 h =
     \<lparr>ax_response =
        Some \<lparr>data = Some \<lparr>api_errorCode = None, api_message = Some (js ''Rate limit exceeded''),
                           api_details = None\<rparr>,
              status = 429,
              headers = (case h of None \<Rightarrow> Map.empty | Some v \<Rightarrow> [js ''retry-after'' \<mapsto> v])\<rparr>,
      ax_message = Some (js ''Request failed with status code 429'')\<rparr>"

definition resp500 :: AxiosError where
  "resp500 =
     \<lparr>ax_response =
        Some \<lparr>data = Some \<lparr>api_errorCode = None, api_message = Some (js ''Internal server error''),
                           api_details = None\<rparr>,
              status = 500, headers = Map.empty\<rparr>,
      ax_message = Some (js ''Request failed with status code 500'')\<rparr>"

definition mockResponse :: GetOrganizationsResponse where
  "mockResponse =
     \<lparr>correlationId = js ''test-correlation-id'',
      organizations =
        [\<lparr>org_id = js ''org-1'', org_name = js ''Restaurant 1'', country = None,
          restaurantAddress = None, latitude = None, longitude = None, useUTCOffset = None,
          utcOffset = None, currencyIsoName = None, currencyMinimumDenomination = None,
          isDisabled = None\<rparr>,
         \<lparr>org_id = js ''org-2'', org_name = js ''Restaurant 2'', country = None,
          restaurantAddress = None, latitude = None, longitude = None, useUTCOffset = None,
          utcOffset = None, currencyIsoName = None, currencyMinimumDenomination = None,
          isDisabled = None\<rparr>]\<rparr>"

definition organizations_server ::
  "(GetOrganizationsRequest, GetOrganizationsResponse) network" where
  "organizations_server req = Inr \<lparr>data = mockResponse, status = 200, headers = Map.empty\<rparr>"

section \<open>Construction\<close>

lemma dropWhile_all: "(\<forall>c \<in> set (dropWhile P s). P c) \<longleftrightarrow> (\<forall>c \<in> set s. P c)"
  by (induction s) auto

lemma trim_empty_iff: "trim s = [] \<longleftrightarrow> (\<forall>c \<in> set s. isWhiteSpace c)"
  by (simp add: trim_def dropWhile_all)

text \<open>
  C7. Construction fails with the error "API key is required" exactly when the credential
  is empty or consists only of white space, whatever its length; for every other
  credential it succeeds, and the new client reports \<open>isAuthenticated\<close> false and no
  access token.
\<close>

theorem constructor_validation:
  "(new_IikoClient key opts = Inl (Error (js ''API key is required''))
      \<longleftrightarrow> key = [] \<or> list_all isWhiteSpace key) \<and>
   (\<not> (key = [] \<or> list_all isWhiteSpace key) \<longrightarrow>
      (\<exists>c. new_IikoClient key opts = Inr c \<and> apiKey c = key \<and>
           isAuthenticated c = False \<and> getAccessToken c = None))"
  by (auto simp: new_IikoClient_def Let_def trim_empty_iff list_all_iff
        isAuthenticated_def getAccessToken_def)

theorem constructor_validation_witness:
  "new_IikoClient (js ''   '') None = Inl (Error (js ''API key is required'')) \<and>
   (\<exists>c. new_IikoClient (js ''test-api-key-12345'') None = Inr c \<and>
        apiKey c = js ''test-api-key-12345'' \<and>
        isAuthenticated c = False \<and> getAccessToken c = None)"
proof -
  have ws: "list_all isWhiteSpace (js ''   '')"
    by (simp add: js_def isWhiteSpace_def)
  have nws: "\<not> (js ''test-api-key-12345'' = [] \<or> list_all isWhiteSpace (js ''test-api-key-12345''))"
    by (simp add: js_def isWhiteSpace_def)
  from ws have "new_IikoClient (js ''   '') None = Inl (Error (js ''API key is required''))"
    using constructor_validation [of "js ''   ''" None] by simp
  moreover from nws have "\<exists>c. new_IikoClient (js ''test-api-key-12345'') None = Inr c \<and>
        apiKey c = js ''test-api-key-12345'' \<and>
        isAuthenticated c = False \<and> getAccessToken c = None"
    using constructor_validation [of "js ''test-api-key-12345''" None] by blast
  ultimately show ?thesis by blast
qed

section \<open>The authentication guard\<close>

lemma never_authenticated_no_token: "never_authenticated c \<Longrightarrow> accessToken c = None"
proof (induction rule: never_authenticated.induct)
  case (constructed key opts c)
  then show ?case by (auto simp: new_IikoClient_def Let_def split: if_splits)
next
  case (auth_failed c net e)
  then show ?case
    by (auto simp: authenticate_def split: sum.splits)
next
  case (resource_call c net' request)
  then show ?case
    by (auto simp: getOrganizations_def post_def Let_def split: sum.splits)
qed

lemma new_IikoAuthError_fields:
  "new_IikoAuthError msg resp =
     \<lparr>name = IikoAuthError, message = msg, statusCode = 401,
      errorCode = Some (js ''AUTH_ERROR''), response = resp, retryAfter = None\<rparr>"
  by (simp add: new_IikoAuthError_def new_IikoApiError_def)

lemma new_IikoRateLimitError_fields:
  "new_IikoRateLimitError msg ra resp =
     \<lparr>name = IikoRateLimitError, message = msg, statusCode = 429,
      errorCode = Some (js ''RATE_LIMIT''), response = resp, retryAfter = ra\<rparr>"
  by (simp add: new_IikoRateLimitError_def new_IikoApiError_def)

lemma guard_rejects:
  "accessToken c = None \<or> accessToken c = Some [] \<Longrightarrow>
   ensureAuthenticated c =
     Inl \<lparr>name = IikoAuthError, message = js ''Not authenticated. Call authenticate() first.'',
          statusCode = 401, errorCode = Some (js ''AUTH_ERROR''), response = None,
          retryAfter = None\<rparr>"
  by (auto simp: ensureAuthenticated_def new_IikoAuthError_fields)


lemma test_client_constructed: "new_IikoClient TEST_API_KEY None = Inr test_client"
  by (simp add: new_IikoClient_def test_client_def TEST_API_KEY_def trim_empty_iff js_def
        isWhiteSpace_def)

text \<open>
  C1. A client that has never completed a successful \<open>authenticate\<close> fails every
  resource call with the \<^verbatim>\<open>IikoAuthError\<close> of the local guard, message
  "Not authenticated. Call authenticate() first.", and hands no request to the transport:
  \<open>getOrganizations\<close>, and the \<open>post\<close> and \<open>get\<close> it is built on, whatever the network
  would answer.
\<close>

theorem resource_call_requires_authentication:
  "never_authenticated c \<Longrightarrow>
   getOrganizations net c request =
     \<lparr>result = Inl \<lparr>name = IikoAuthError,
                     message = js ''Not authenticated. Call authenticate() first.'',
                     statusCode = 401, errorCode = Some (js ''AUTH_ERROR''),
                     response = None, retryAfter = None\<rparr>,
      client = c, sent = []\<rparr> \<and>
   post net1 c endpoint d =
     \<lparr>result = Inl \<lparr>name = IikoAuthError,
                     message = js ''Not authenticated. Call authenticate() first.'',
                     statusCode = 401, errorCode = Some (js ''AUTH_ERROR''),
                     response = None, retryAfter = None\<rparr>,
      client = c, sent = []\<rparr> \<and>
   get net2 c endpoint =
     \<lparr>result = Inl \<lparr>name = IikoAuthError,
                     message = js ''Not authenticated. Call authenticate() first.'',
                     statusCode = 401, errorCode = Some (js ''AUTH_ERROR''),
                     response = None, retryAfter = None\<rparr>,
      client = c, sent = []\<rparr>"
proof -
  assume "never_authenticated c"
  then have "accessToken c = None" by (rule never_authenticated_no_token)
  then have g: "ensureAuthenticated c =
     Inl \<lparr>name = IikoAuthError, message = js ''Not authenticated. Call authenticate() first.'',
          statusCode = 401, errorCode = Some (js ''AUTH_ERROR''), response = None,
          retryAfter = None\<rparr>"
    by (simp add: guard_rejects)
  show ?thesis
    by (simp add: getOrganizations_def post_def get_def g)
qed

theorem resource_call_requires_authentication_witness:
  "never_authenticated (client (authenticate (failing_server resp401) test_client)) \<and>
   getOrganizations organizations_server
       (client (authenticate (failing_server resp401) test_client)) None =
     \<lparr>result = Inl \<lparr>name = IikoAuthError,
                     message = js ''Not authenticated. Call authenticate() first.'',
                     statusCode = 401, errorCode = Some (js ''AUTH_ERROR''),
                     response = None, retryAfter = None\<rparr>,
      client = test_client, sent = []\<rparr>"
proof -
  have h0: "never_authenticated test_client"
    by (rule constructed [OF test_client_constructed])
  have f: "authenticate (failing_server resp401) test_client =
             \<lparr>result = Inl (handleError resp401), client = test_client,
              sent = [access_token_request test_client]\<rparr>"
    by (simp add: authenticate_def httpClient_request_def failing_server_def)
  have h: "never_authenticated (client (authenticate (failing_server resp401) test_client))"
    by (rule auth_failed [OF h0]) (simp add: f)
  note t = resource_call_requires_authentication
             [of "client (authenticate (failing_server resp401) test_client)"
                 organizations_server None, OF h]
  show ?thesis
    using h t [THEN conjunct1] by (simp add: f)
qed

section \<open>Classification of failures\<close>

text \<open>
  C2. \<open>handleError\<close> yields one error, of the class chosen in this order: status 401
  gives \<^verbatim>\<open>IikoAuthError\<close> (statusCode 401, errorCode "AUTH_ERROR"); else status 429 gives
  \<^verbatim>\<open>IikoRateLimitError\<close> (statusCode 429, errorCode "RATE_LIMIT"); else
  \<^verbatim>\<open>IikoApiError\<close> with the status, the error code and the body of the response. With
  no response at all the status is 500.
\<close>

theorem handleError_classification:
  "(ax_response e = None \<longrightarrow>
      name (handleError e) = IikoApiError \<and> statusCode (handleError e) = 500 \<and>
      errorCode (handleError e) = None \<and> response (handleError e) = None) \<and>
   (\<forall>r. ax_response e = Some r \<longrightarrow>
      (status r = 401 \<longrightarrow>
         name (handleError e) = IikoAuthError \<and> statusCode (handleError e) = 401 \<and>
         errorCode (handleError e) = Some (js ''AUTH_ERROR'') \<and>
         response (handleError e) = data r) \<and>
      (status r \<noteq> 401 \<and> status r = 429 \<longrightarrow>
         name (handleError e) = IikoRateLimitError \<and> statusCode (handleError e) = 429 \<and>
         errorCode (handleError e) = Some (js ''RATE_LIMIT'') \<and>
         response (handleError e) = data r) \<and>
      (status r \<noteq> 401 \<and> status r \<noteq> 429 \<longrightarrow>
         name (handleError e) = IikoApiError \<and> statusCode (handleError e) = status r \<and>
         errorCode (handleError e) = (case data r of None \<Rightarrow> None | Some d \<Rightarrow> api_errorCode d) \<and>
         response (handleError e) = data r))"
  by (auto simp: handleError_def Let_def new_IikoAuthError_fields new_IikoRateLimitError_fields
        new_IikoApiError_def)

theorem handleError_classification_witness:
  "handleError \<lparr>ax_response = None, ax_message = Some (js ''Network Error'')\<rparr> =
     \<lparr>name = IikoApiError, message = js ''Network Error'', statusCode = 500,
      errorCode = None, response = None, retryAfter = None\<rparr> \<and>
   name (handleError \<lparr>ax_response = Some \<lparr>data = None, status = 401, headers = Map.empty\<rparr>,
                      ax_message = None\<rparr>) = IikoAuthError \<and>
   name (handleError \<lparr>ax_response = Some \<lparr>data = None, status = 429, headers = Map.empty\<rparr>,
                      ax_message = None\<rparr>) = IikoRateLimitError \<and>
   statusCode (handleError \<lparr>ax_response = Some \<lparr>data = None, status = 503, headers = Map.empty\<rparr>,
                      ax_message = None\<rparr>) = 503"
proof -
  have a: "ax_response \<lparr>ax_response = None, ax_message = Some (js ''Network Error'')\<rparr> = None"
    by simp
  have m: "message (handleError \<lparr>ax_response = None, ax_message = Some (js ''Network Error'')\<rparr>)
             = js ''Network Error''"
    by (simp add: handleError_def new_IikoApiError_def)
  have ra: "retryAfter (handleError \<lparr>ax_response = None, ax_message = Some (js ''Network Error'')\<rparr>)
             = None"
    by (simp add: handleError_def new_IikoApiError_def)
  have 1: "handleError \<lparr>ax_response = None, ax_message = Some (js ''Network Error'')\<rparr> =
     \<lparr>name = IikoApiError, message = js ''Network Error'', statusCode = 500,
      errorCode = None, response = None, retryAfter = None\<rparr>"
    using a m ra
      handleError_classification [of "\<lparr>ax_response = None, ax_message = Some (js ''Network Error'')\<rparr>"]
    by (intro iiko_error.equality) simp_all
  have 2: "name (handleError \<lparr>ax_response = Some \<lparr>data = None, status = 401, headers = Map.empty\<rparr>,
                      ax_message = None\<rparr>) = IikoAuthError"
    using handleError_classification
      [of "\<lparr>ax_response = Some \<lparr>data = None, status = 401, headers = Map.empty\<rparr>, ax_message = None\<rparr>"]
    by simp
  have 3: "name (handleError \<lparr>ax_response = Some \<lparr>data = None, status = 429, headers = Map.empty\<rparr>,
                      ax_message = None\<rparr>) = IikoRateLimitError"
    using handleError_classification
      [of "\<lparr>ax_response = Some \<lparr>data = None, status = 429, headers = Map.empty\<rparr>, ax_message = None\<rparr>"]
    by simp
  have 4: "statusCode (handleError \<lparr>ax_response = Some \<lparr>data = None, status = 503, headers = Map.empty\<rparr>,
                      ax_message = None\<rparr>) = 503"
    using handleError_classification
      [of "\<lparr>ax_response = Some \<lparr>data = None, status = 503, headers = Map.empty\<rparr>, ax_message = None\<rparr>"]
    by simp
  from 1 2 3 4 show ?thesis by blast
qed

text \<open>
  C6. The message of the error is the \<open>message\<close> field of the response body when the body
  has one; otherwise the message of the transport's error; otherwise the text
  "An unknown error occurred".
\<close>

theorem error_message_precedence:
  "(\<forall>r d m. ax_response e = Some r \<and> data r = Some d \<and> api_message d = Some m \<longrightarrow>
      message (handleError e) = m) \<and>
   ((ax_response e = None \<or>
     (\<exists>r. ax_response e = Some r \<and>
          (data r = None \<or> (\<exists>d. data r = Some d \<and> api_message d = None)))) \<longrightarrow>
      (\<forall>m. ax_message e = Some m \<longrightarrow> message (handleError e) = m) \<and>
      (ax_message e = None \<longrightarrow> message (handleError e) = js ''An unknown error occurred''))"
  by (auto simp: handleError_def Let_def new_IikoAuthError_fields new_IikoRateLimitError_fields
        new_IikoApiError_def)

theorem error_message_precedence_witness:
  "message (handleError resp500) = js ''Internal server error'' \<and>
   message (handleError \<lparr>ax_response = None, ax_message = Some (js ''Network Error'')\<rparr>) =
     js ''Network Error'' \<and>
   message (handleError \<lparr>ax_response = None, ax_message = None\<rparr>) =
     js ''An unknown error occurred''"
proof -
  have 1: "message (handleError resp500) = js ''Internal server error''"
    using error_message_precedence [of resp500] by (simp add: resp500_def)
  have 2: "message (handleError \<lparr>ax_response = None, ax_message = Some (js ''Network Error'')\<rparr>) =
     js ''Network Error''"
    using error_message_precedence
            [of "\<lparr>ax_response = None, ax_message = Some (js ''Network Error'')\<rparr>"]
    by simp
  have 3: "message (handleError \<lparr>ax_response = None, ax_message = None\<rparr>) =
     js ''An unknown error occurred''"
    using error_message_precedence [of "\<lparr>ax_response = None, ax_message = None\<rparr>"]
    by simp
  from 1 2 3 show ?thesis by blast
qed

lemma parseInt10_60: "parseInt10 (js ''60'') = Num 60"
  by (simp add: parseInt10_def js_def isWhiteSpace_def isDecimalDigit_def digitsValue_def
        roundToDouble_def)

lemma parseInt10_http_date: "parseInt10 (js ''Wed, 21 Oct 2015 07:28:00 GMT'') = NaN"
  by (simp add: parseInt10_def js_def isWhiteSpace_def isDecimalDigit_def)

lemma parseInt10_prefix: "parseInt10 (js ''  -60abc'') = Num (- 60)"
  by (simp add: parseInt10_def js_def isWhiteSpace_def isDecimalDigit_def digitsValue_def
        roundToDouble_def)

lemma parseInt10_negative_zero: "parseInt10 (js ''-0'') = NegZero"
  by (simp add: parseInt10_def js_def isWhiteSpace_def isDecimalDigit_def digitsValue_def)

lemma roundToDouble_above_2_53:
  "roundToDouble 9007199254740993 = Some 9007199254740992"
  "roundToDouble 9007199254740995 = Some 9007199254740996"
  by (simp_all add: roundToDouble_def Let_def)

lemma parseInt10_rounds: "parseInt10 (js ''9007199254740993'') = Num 9007199254740992"
  by (simp add: parseInt10_def js_def isWhiteSpace_def isDecimalDigit_def digitsValue_def
        roundToDouble_above_2_53)

lemma roundToDouble_overflow:
  "roundToDouble
     1000000000000000000000000000000000000000000000000000000000000000000000000000000000000000000000000000000000000000000000000000000000000000000000000000000000000000000000000000000000000000000000000000000000000000000000000000000000000000000000000000000000000000000000000000000000000000000000000000000000000000000000 = None"
  by (simp add: roundToDouble_def Let_def)

lemma parseInt10_overflow:
  "parseInt10 (js
     ''1000000000000000000000000000000000000000000000000000000000000000000000000000000000000000000000000000000000000000000000000000000000000000000000000000000000000000000000000000000000000000000000000000000000000000000000000000000000000000000000000000000000000000000000000000000000000000000000000000000000000000000000'') = PosInfinity"
  by (simp add: parseInt10_def js_def isWhiteSpace_def isDecimalDigit_def digitsValue_def
        roundToDouble_overflow)

text \<open>
  C5. A 429 response whose \<^verbatim>\<open>retry-after\<close> header is "60" gives \<open>retryAfter\<close> 60, and one
  with no such header gives none: so far the code does what the claim says. For a header
  that does not parse the claim says \<open>retryAfter\<close> is absent, and the field is documented as
  a time in seconds; the code tests the header for truthiness only, and at an HTTP date,
  a form the header may take, it stores the \<open>NaN\<close> that \<^verbatim>\<open>parseInt\<close> returns.
\<close>

theorem retry_after_http_date_is_NaN:
  "retryAfter (handleError (resp429 (Some (js ''60'')))) = Some (Num 60) \<and>
   retryAfter (handleError (resp429 None)) = None \<and>
   parseInt10 (js ''Wed, 21 Oct 2015 07:28:00 GMT'') = NaN \<and>
   retryAfter (handleError (resp429 (Some (js ''Wed, 21 Oct 2015 07:28:00 GMT'')))) = Some NaN"
proof -
  have ne: "js ''60'' \<noteq> []" "js ''Wed, 21 Oct 2015 07:28:00 GMT'' \<noteq> []"
    by (simp_all add: js_def)
  have 1: "retryAfter (handleError (resp429 (Some (js ''60'')))) = Some (Num 60)"
    using ne(1)
    by (simp add: handleError_def resp429_def Let_def new_IikoRateLimitError_fields parseInt10_60)
  have 2: "retryAfter (handleError (resp429 None)) = None"
    by (simp add: handleError_def resp429_def Let_def new_IikoRateLimitError_fields)
  have 3: "retryAfter (handleError (resp429 (Some (js ''Wed, 21 Oct 2015 07:28:00 GMT'')))) = Some NaN"
    using ne(2)
    by (simp add: handleError_def resp429_def Let_def new_IikoRateLimitError_fields
          parseInt10_http_date)
  from 1 2 3 parseInt10_http_date show ?thesis by blast
qed

section \<open>Authentication\<close>

lemma authenticate_resolves:
  "net (access_token_request c) = Inr r \<Longrightarrow>
   authenticate net c =
     \<lparr>result = Inr \<lparr>token = data r\<rparr>, client = c\<lparr>accessToken := Some (data r)\<rparr>,
      sent = [access_token_request c]\<rparr>"
  by (simp add: authenticate_def httpClient_request_def)

lemma authenticate_rejects:
  "net (access_token_request c) = Inl e \<Longrightarrow>
   authenticate net c =
     \<lparr>result = Inl (handleError e), client = c, sent = [access_token_request c]\<rparr>"
  by (simp add: authenticate_def httpClient_request_def)

text \<open>
  C3. When the server answers \<open>authenticate\<close> with a token \<open>t\<close> (any string, so every
  non-empty one), the call resolves to a record holding \<open>t\<close>, and afterwards
  \<open>isAuthenticated\<close> is true and \<open>getAccessToken\<close> is \<open>t\<close>. A later \<open>authenticate\<close> answered
  with \<open>t'\<close> stores \<open>t'\<close>; each call hands one request to the transport, whatever
  token is stored.
\<close>

theorem authenticate_stores_token:
  "net (access_token_request c) = Inr r \<Longrightarrow> data r = t \<Longrightarrow>
   result (authenticate net c) = Inr \<lparr>token = t\<rparr> \<and>
   isAuthenticated (client (authenticate net c)) = True \<and>
   getAccessToken (client (authenticate net c)) = Some t \<and>
   sent (authenticate net c) = [access_token_request c] \<and>
   (\<forall>net' r' t'.
      net' (access_token_request (client (authenticate net c))) = Inr r' \<and> data r' = t' \<longrightarrow>
      result (authenticate net' (client (authenticate net c))) = Inr \<lparr>token = t'\<rparr> \<and>
      isAuthenticated (client (authenticate net' (client (authenticate net c)))) = True \<and>
      getAccessToken (client (authenticate net' (client (authenticate net c)))) = Some t' \<and>
      sent (authenticate net' (client (authenticate net c))) =
        [access_token_request (client (authenticate net c))])"
  by (auto simp: authenticate_resolves isAuthenticated_def getAccessToken_def)

theorem authenticate_stores_token_witness:
  "result (authenticate (token_server TEST_TOKEN) test_client) = Inr \<lparr>token = TEST_TOKEN\<rparr> \<and>
   isAuthenticated (client (authenticate (token_server TEST_TOKEN) test_client)) = True \<and>
   getAccessToken (client (authenticate (token_server TEST_TOKEN) test_client)) = Some TEST_TOKEN \<and>
   getAccessToken (client (authenticate (token_server (js ''second-token''))
      (client (authenticate (token_server TEST_TOKEN) test_client)))) = Some (js ''second-token'')"
proof -
  have a: "token_server TEST_TOKEN (access_token_request test_client) =
             Inr \<lparr>data = TEST_TOKEN, status = 200, headers = Map.empty\<rparr>"
    by (simp add: token_server_def)
  have b: "data \<lparr>data = TEST_TOKEN, status = 200, headers = Map.empty\<rparr> = TEST_TOKEN"
    by simp
  have c: "token_server (js ''second-token'')
             (access_token_request (client (authenticate (token_server TEST_TOKEN) test_client))) =
             Inr \<lparr>data = js ''second-token'', status = 200, headers = Map.empty\<rparr>"
    by (simp add: token_server_def)
  show ?thesis
    using authenticate_stores_token
            [of "token_server TEST_TOKEN" test_client
                "\<lparr>data = TEST_TOKEN, status = 200, headers = Map.empty\<rparr>" TEST_TOKEN] a b c
    by simp
qed

text \<open>
  C4. When the request of \<open>authenticate\<close> is rejected, with any error, the call rejects
  with the classified error and the client is as it was: a client with no token still has
  none, and a stored token is neither cleared nor replaced.
\<close>

theorem authenticate_failure_keeps_state:
  "net (access_token_request c) = Inl e \<Longrightarrow>
   result (authenticate net c) = Inl (handleError e) \<and>
   client (authenticate net c) = c \<and>
   isAuthenticated (client (authenticate net c)) = isAuthenticated c \<and>
   getAccessToken (client (authenticate net c)) = getAccessToken c"
  by (simp add: authenticate_rejects)

theorem authenticate_failure_keeps_state_witness:
  "result (authenticate (failing_server resp401) test_client) = Inl (handleError resp401) \<and>
   name (handleError resp401) = IikoAuthError \<and>
   isAuthenticated (client (authenticate (failing_server resp401) test_client)) = False \<and>
   getAccessToken (client (authenticate (failing_server resp401)
      (test_client\<lparr>accessToken := Some TEST_TOKEN\<rparr>))) = Some TEST_TOKEN"
proof -
  have a: "failing_server resp401 (access_token_request test_client) = Inl resp401"
    by (simp add: failing_server_def)
  have b: "failing_server resp401
             (access_token_request (test_client\<lparr>accessToken := Some TEST_TOKEN\<rparr>)) = Inl resp401"
    by (simp add: failing_server_def)
  have n: "name (handleError resp401) = IikoAuthError"
    by (simp add: handleError_def resp401_def new_IikoAuthError_fields Let_def)
  note r1 = authenticate_failure_keeps_state
              [of "failing_server resp401" test_client resp401, OF a]
  note r2 = authenticate_failure_keeps_state
              [of "failing_server resp401" "test_client\<lparr>accessToken := Some TEST_TOKEN\<rparr>" resp401,
               OF b]
  have i: "isAuthenticated test_client = False"
    by (simp add: isAuthenticated_def test_client_def)
  have g: "getAccessToken (test_client\<lparr>accessToken := Some TEST_TOKEN\<rparr>) = Some TEST_TOKEN"
    by (simp add: getAccessToken_def)
  show ?thesis
    using r1 r2 n i g by simp
qed

section \<open>Resource calls\<close>




text \<open>
  C9. Resource calls, answered or rejected, leave the client as it was: token, credential
  and configuration. \<open>isAuthenticated\<close> and \<open>getAccessToken\<close> only read \<open>accessToken\<close>, the
  source assigns nothing in them and they are functions of the client here, so they
  return the same before and after a resource call. \<open>authenticate\<close> itself changes nothing
  but the token.
\<close>

theorem only_authenticate_mutates:
  "client (getOrganizations net c request) = c \<and>
   client (post net1 c endpoint d) = c \<and>
   client (get net2 c endpoint) = c \<and>
   isAuthenticated (client (getOrganizations net c request)) = isAuthenticated c \<and>
   getAccessToken (client (getOrganizations net c request)) = getAccessToken c \<and>
   apiKey (client (authenticate net3 c)) = apiKey c \<and>
   httpClient (client (authenticate net3 c)) = httpClient c"
  by (auto simp: getOrganizations_def post_def get_def authenticate_def Let_def
        split: sum.splits)

text \<open>
  C10. With the empty string as stored token, \<open>isAuthenticated\<close> is true and every
  resource call fails with the "Not authenticated" error of the guard, handing no request
  to the transport: the predicate tests for \<^verbatim>\<open>null\<close>, the guard for a falsy token.
\<close>

theorem empty_token_passes_predicate_fails_guard:
  "accessToken c = Some [] \<Longrightarrow>
   isAuthenticated c = True \<and>
   getOrganizations net c request =
     \<lparr>result = Inl \<lparr>name = IikoAuthError,
                     message = js ''Not authenticated. Call authenticate() first.'',
                     statusCode = 401, errorCode = Some (js ''AUTH_ERROR''),
                     response = None, retryAfter = None\<rparr>,
      client = c, sent = []\<rparr> \<and>
   post net1 c endpoint d =
     \<lparr>result = Inl \<lparr>name = IikoAuthError,
                     message = js ''Not authenticated. Call authenticate() first.'',
                     statusCode = 401, errorCode = Some (js ''AUTH_ERROR''),
                     response = None, retryAfter = None\<rparr>,
      client = c, sent = []\<rparr> \<and>
   get net2 c endpoint =
     \<lparr>result = Inl \<lparr>name = IikoAuthError,
                     message = js ''Not authenticated. Call authenticate() first.'',
                     statusCode = 401, errorCode = Some (js ''AUTH_ERROR''),
                     response = None, retryAfter = None\<rparr>,
      client = c, sent = []\<rparr>"
  by (simp add: isAuthenticated_def getOrganizations_def post_def get_def guard_rejects)

theorem empty_token_passes_predicate_fails_guard_witness:
  "accessToken (client (authenticate (token_server []) test_client)) = Some [] \<and>
   isAuthenticated (client (authenticate (token_server []) test_client)) = True \<and>
   result (getOrganizations organizations_server
             (client (authenticate (token_server []) test_client)) None) =
     Inl \<lparr>name = IikoAuthError,
          message = js ''Not authenticated. Call authenticate() first.'',
          statusCode = 401, errorCode = Some (js ''AUTH_ERROR''),
          response = None, retryAfter = None\<rparr> \<and>
   sent (getOrganizations organizations_server
             (client (authenticate (token_server []) test_client)) None) = []"
proof -
  have a: "accessToken (client (authenticate (token_server []) test_client)) = Some []"
    by (simp add: authenticate_def httpClient_request_def token_server_def)
  note t = empty_token_passes_predicate_fails_guard
             [of "client (authenticate (token_server []) test_client)" organizations_server None,
              OF a]
  show ?thesis
    using a t [THEN conjunct1] t [THEN conjunct2, THEN conjunct1] by simp
qed

end
